theory Spec2Isabelle
  imports Main "HOL-Library.Sublist" "HOL-Library.AList" "HOL-Library.Char_ord" "HOL-Library.List_Lexorder"
begin

section \<open>Go strings and paths used by the renderer\<close>

text \<open>
  A Go string is a sequence of bytes, here a \<open>string\<close>. The functions of this section are
  those of Go's standard library that \<open>renderer.go\<close> calls (\<open>strings\<close>, \<open>path\<close>,
  \<open>path/filepath\<close> on a system whose separator is the slash), written after their library
  definitions.
\<close>

definition HasSuffix :: "string \<Rightarrow> string \<Rightarrow> bool" where
  \<comment> \<open>\<open>len(s) >= len(suffix) && s[len(s)-len(suffix):] == suffix\<close>\<close>
  "HasSuffix s suf = (length suf \<le> length s \<and> drop (length s - length suf) s = suf)"

definition TrimSuffix :: "string \<Rightarrow> string \<Rightarrow> string" where
  \<comment> \<open>\<open>if HasSuffix(s, suffix) { return s[:len(s)-len(suffix)] }; return s\<close>\<close>
  "TrimSuffix s suf = (if HasSuffix s suf then take (length s - length suf) s else s)"

fun Contains :: "string \<Rightarrow> string \<Rightarrow> bool" where
  \<comment> \<open>\<open>strings.Contains(s, substr)\<close>: \<open>substr\<close> starts at some index of \<open>s\<close>\<close>
  "Contains [] sub = (sub = [])"
| "Contains (c # cs) sub = (prefix sub (c # cs) \<or> Contains cs sub)"

fun strings_Join :: "string list \<Rightarrow> string \<Rightarrow> string" where
  "strings_Join [] sep = []"
| "strings_Join [x] sep = x"
| "strings_Join (x # y # ys) sep = x @ sep @ strings_Join (y # ys) sep"

fun strings_Split :: "string \<Rightarrow> string list" where
  \<comment> \<open>\<open>strings.Split(s, "/")\<close>: the pieces between slashes, empty pieces kept\<close>
  "strings_Split [] = [[]]"
| "strings_Split (c # cs) =
     (if c = CHR ''/'' then [] # strings_Split cs
      else (case strings_Split cs of [] \<Rightarrow> [[c]] | x # xs \<Rightarrow> (c # x) # xs))"

definition clean_step :: "bool \<Rightarrow> string list \<Rightarrow> string \<Rightarrow> string list" where
  \<comment> \<open>one path element of \<open>Clean\<close>: empty and dot elements are dropped, a dot-dot element
      removes the element before it, is dropped at the root, and is kept in front of a
      relative path\<close>
  "clean_step rooted st c =
     (if c = [] \<or> c = ''.'' then st
      else if c = ''..'' then
        (if st \<noteq> [] \<and> last st \<noteq> ''..'' then butlast st
         else if rooted then st
         else st @ [''..''])
      else st @ [c])"

definition Clean :: "string \<Rightarrow> string" where
  "Clean p =
     (if p = [] then ''.''
      else
        let rooted = (hd p = CHR ''/'');
            st = foldl (clean_step rooted) [] (strings_Split p)
        in if rooted then CHR ''/'' # strings_Join st ''/''
           else if st = [] then ''.''
           else strings_Join st ''/'')"

definition filepath_Join :: "string list \<Rightarrow> string" where
  \<comment> \<open>\<open>filepath.Join\<close>: leading empty elements are ignored, the rest is joined by slashes
      and cleaned; no element at all gives the empty string\<close>
  "filepath_Join elems =
     (case dropWhile (\<lambda>e. e = []) elems of
        [] \<Rightarrow> []
      | e # es \<Rightarrow> Clean (strings_Join (e # es) ''/''))"

definition Base :: "string \<Rightarrow> string" where
  \<comment> \<open>\<open>path.Base\<close> and \<open>filepath.Base\<close>: the last element, trailing slashes removed first\<close>
  "Base p =
     (if p = [] then ''.''
      else
        let q = rev (dropWhile (\<lambda>c. c = CHR ''/'') (rev p));
            b = rev (takeWhile (\<lambda>c. c \<noteq> CHR ''/'') (rev q))
        in if b = [] then ''/'' else b)"

definition path_Dir :: "string \<Rightarrow> string" where
  \<comment> \<open>\<open>path.Dir\<close>: everything up to the last slash, cleaned\<close>
  "path_Dir p = Clean (rev (dropWhile (\<lambda>c. c \<noteq> CHR ''/'') (rev p)))"

section \<open>The operating system as the renderer sees it\<close>

text \<open>
  The file system is a table from resolved paths (lists of path elements below the working
  directory, which is also taken as the root) to nodes. The order of the table is the order
  in which a directory hands out its entries, which Go does not promise to be sorted. There
  are no symbolic links and no permissions. A path is resolved element by element, as the
  operating system does: an element, also a dot or a dot-dot, can only be taken from an
  existing directory, and a path that ends with a slash names a directory or nothing.
\<close>

datatype node = File string | Dir

type_synonym fsys = "(string list \<times> node) list"

datatype errno = ENOENT | ENOTDIR | EISDIR

datatype os_error = PathError string string errno
  \<comment> \<open>Go's \<open>*os.PathError\<close>: operation, path, cause\<close>

record world =
  files :: fsys
  stdout :: string   \<comment> \<open>the bytes written to \<open>os.Stdout\<close>\<close>
  logged :: "string list"   \<comment> \<open>the lines given to \<open>log.Printf\<close>\<close>
  opened :: "string list"   \<comment> \<open>every name given to \<open>os.Open\<close> or \<open>os.OpenFile\<close>, in call order\<close>

record os_file =
  Name :: string   \<comment> \<open>the name as presented to Open\<close>
  fkey :: "string list"   \<comment> \<open>the node the descriptor refers to\<close>
  fappend :: bool   \<comment> \<open>opened with \<open>O_APPEND\<close>\<close>

datatype oflag = O_WRONLY | O_CREATE | O_APPEND | O_TRUNC

definition key_step :: "string list \<Rightarrow> string \<Rightarrow> string list" where
  "key_step st c =
     (if c = [] \<or> c = ''.'' then st
      else if c = ''..'' then butlast st
      else st @ [c])"

definition path_key :: "string \<Rightarrow> string list" where
  \<comment> \<open>the place a path leads to when each of its steps can be taken (see \<open>resolve\<close>)\<close>
  "path_key p = foldl key_step [] (strings_Split p)"

definition lookup_node :: "fsys \<Rightarrow> string list \<Rightarrow> node option" where
  "lookup_node fs k = (if k = [] then Some Dir else map_of fs k)"

fun walk_path :: "fsys \<Rightarrow> string list \<Rightarrow> string list \<Rightarrow> errno + string list" where
  \<comment> \<open>the elements of a path are taken one by one from the place reached so far, which
      has to be an existing directory\<close>
  "walk_path fs cur [] = Inr cur"
| "walk_path fs cur (c # cs) =
     (if c = [] then walk_path fs cur cs
      else (case lookup_node fs cur of
              None \<Rightarrow> Inl ENOENT
            | Some (File x) \<Rightarrow> Inl ENOTDIR
            | Some Dir \<Rightarrow> walk_path fs (key_step cur c) cs))"

definition resolve :: "fsys \<Rightarrow> string \<Rightarrow> errno + string list" where
  \<comment> \<open>path resolution: the place a path names, which need not exist yet unless the path
      ends with a slash\<close>
  "resolve fs p =
     (case walk_path fs [] (strings_Split p) of
        Inl e \<Rightarrow> Inl e
      | Inr k \<Rightarrow>
          if p \<noteq> [] \<and> last p = CHR ''/'' then
            (case lookup_node fs k of
               Some Dir \<Rightarrow> Inr k
             | Some (File x) \<Rightarrow> Inl ENOTDIR
             | None \<Rightarrow> Inl ENOENT)
          else Inr k)"

definition os_Open :: "world \<Rightarrow> string \<Rightarrow> (os_error + os_file) \<times> world" where
  "os_Open w name =
     (let w1 = w\<lparr>opened := opened w @ [name]\<rparr> in
      if name = [] then (Inl (PathError ''open'' name ENOENT), w1)
      else (case resolve (files w) name of
              Inl e \<Rightarrow> (Inl (PathError ''open'' name e), w1)
            | Inr k \<Rightarrow>
                (case lookup_node (files w) k of
                   None \<Rightarrow> (Inl (PathError ''open'' name ENOENT), w1)
                 | Some nd \<Rightarrow> (Inr \<lparr>Name = name, fkey = k, fappend = False\<rparr>, w1))))"

definition file_Stat :: "world \<Rightarrow> os_file \<Rightarrow> os_error + bool" where
  \<comment> \<open>\<open>f.Stat()\<close>, reduced to what the renderer reads of it: \<open>IsDir()\<close>\<close>
  "file_Stat w f =
     (case lookup_node (files w) (fkey f) of
        None \<Rightarrow> Inl (PathError ''stat'' (Name f) ENOENT)
      | Some Dir \<Rightarrow> Inr True
      | Some (File c) \<Rightarrow> Inr False)"

definition file_Readdirnames :: "world \<Rightarrow> os_file \<Rightarrow> os_error + string list" where
  \<comment> \<open>\<open>f.Readdirnames(-1)\<close>: all entry names, in directory order\<close>
  "file_Readdirnames w f =
     (case lookup_node (files w) (fkey f) of
        Some Dir \<Rightarrow> Inr (map (\<lambda>e. last (fst e))
                        (filter (\<lambda>e. fst e \<noteq> [] \<and> butlast (fst e) = fkey f) (files w)))
      | Some (File c) \<Rightarrow> Inl (PathError ''readdirent'' (Name f) ENOTDIR)
      | None \<Rightarrow> Inl (PathError ''readdirent'' (Name f) ENOENT))"

fun mkdirs :: "fsys \<Rightarrow> string list list \<Rightarrow> errno option \<times> fsys" where
  "mkdirs fs [] = (None, fs)"
| "mkdirs fs (k # ks) =
     (case lookup_node fs k of
        Some Dir \<Rightarrow> mkdirs fs ks
      | Some (File c) \<Rightarrow> (Some ENOTDIR, fs)
      | None \<Rightarrow> mkdirs (fs @ [(k, Dir)]) ks)"

definition os_MkdirAll :: "world \<Rightarrow> string \<Rightarrow> os_error option \<times> world" where
  \<comment> \<open>\<open>os.MkdirAll(path, 0755)\<close> on a cleaned path, as \<open>path.Dir\<close> gives it: every
      missing directory of the chain is made, outermost first; a file in the way is an
      error, reported here for the path given (Go's versions differ in the element and the
      cause they name when the file is not the last element)\<close>
  "os_MkdirAll w p =
     (case mkdirs (files w) (prefixes (path_key p)) of
        (None, fs) \<Rightarrow> (None, w\<lparr>files := fs\<rparr>)
      | (Some e, fs) \<Rightarrow> (Some (PathError ''mkdir'' p e), w\<lparr>files := fs\<rparr>))"

definition os_OpenFile :: "world \<Rightarrow> string \<Rightarrow> oflag list \<Rightarrow> (os_error + os_file) \<times> world" where
  \<comment> \<open>as the renderer calls it, for writing; a name that ends with a slash is refused
      with \<open>EISDIR\<close> under \<open>O_CREATE\<close> once the steps before the slash are taken\<close>
  "os_OpenFile w name flags =
     (let w1 = w\<lparr>opened := opened w @ [name]\<rparr> in
      if name = [] then (Inl (PathError ''open'' name ENOENT), w1)
      else (case resolve (files w) name of
              Inl e \<Rightarrow>
                (Inl (PathError ''open'' name
                        (case walk_path (files w) [] (strings_Split name) of
                           Inl e' \<Rightarrow> e
                         | Inr k \<Rightarrow> if O_CREATE \<in> set flags then EISDIR else e)), w1)
            | Inr k \<Rightarrow>
                (let f = \<lparr>Name = name, fkey = k, fappend = (O_APPEND \<in> set flags)\<rparr> in
                 case lookup_node (files w) k of
                   Some Dir \<Rightarrow> (Inl (PathError ''open'' name EISDIR), w1)
                 | Some (File c) \<Rightarrow>
                     (Inr f, if O_TRUNC \<in> set flags
                             then w1\<lparr>files := AList.update k (File []) (files w)\<rparr> else w1)
                 | None \<Rightarrow>
                     (if O_CREATE \<notin> set flags
                      then (Inl (PathError ''open'' name ENOENT), w1)
                      else (case lookup_node (files w) (butlast k) of
                              Some Dir \<Rightarrow> (Inr f, w1\<lparr>files := files w @ [(k, File [])]\<rparr>)
                            | Some (File c) \<Rightarrow> (Inl (PathError ''open'' name ENOTDIR), w1)
                            | None \<Rightarrow> (Inl (PathError ''open'' name ENOENT), w1))))))"

definition file_Write :: "world \<Rightarrow> os_file \<Rightarrow> string \<Rightarrow> world" where
  \<comment> \<open>all the bytes one execution writes through a fresh descriptor: at the end of the file
      under \<open>O_APPEND\<close>, from offset 0 over the old bytes otherwise\<close>
  "file_Write w f bs =
     (case lookup_node (files w) (fkey f) of
        Some (File c) \<Rightarrow>
          w\<lparr>files := AList.update (fkey f)
                        (File (if fappend f then c @ bs else bs @ drop (length bs) c)) (files w)\<rparr>
      | _ \<Rightarrow> w)"

definition os_ReadFile :: "world \<Rightarrow> string \<Rightarrow> os_error + string" where
  "os_ReadFile w name =
     (if name = [] then Inl (PathError ''open'' name ENOENT)
      else (case resolve (files w) name of
              Inl e \<Rightarrow> Inl (PathError ''open'' name e)
            | Inr k \<Rightarrow>
                (case lookup_node (files w) k of
                   None \<Rightarrow> Inl (PathError ''open'' name ENOENT)
                 | Some Dir \<Rightarrow> Inl (PathError ''read'' name EISDIR)
                 | Some (File c) \<Rightarrow> Inr c)))"

fun errno_text :: "errno \<Rightarrow> string" where
  "errno_text ENOENT = ''no such file or directory''"
| "errno_text ENOTDIR = ''not a directory''"
| "errno_text EISDIR = ''is a directory''"

fun os_error_text :: "os_error \<Rightarrow> string" where
  \<comment> \<open>\<open>(*PathError).Error()\<close>\<close>
  "os_error_text (PathError op path e) = op @ '' '' @ path @ '': '' @ errno_text e"

section \<open>The template engine\<close>

text \<open>
  Go's \<open>text/template\<close> is not part of the repository. The renderer is modelled over any
  engine: \<open>ParseFiles\<close> gets the name of the new template, the helper functions registered
  with \<open>Funcs\<close> (\<open>None\<close> when \<open>Funcs\<close> is not called), the file names and the means to read
  them, and gives an error message or a template set; \<open>Execute\<close> gets the missing-key option,
  the template set and the values, and gives the bytes it wrote and an error message if it
  failed.
\<close>

datatype missingkey = MissingKeyError | MissingKeyZero

record ('f, 't, 'v) engine =
  ParseFiles :: "string \<Rightarrow> 'f option \<Rightarrow> string list \<Rightarrow> (string \<Rightarrow> os_error + string) \<Rightarrow> string + 't"
  Execute_tpl :: "missingkey \<Rightarrow> 't \<Rightarrow> 'v \<Rightarrow> string \<times> string option"

section \<open>The renderer\<close>

record 'f Renderer =
  FuncMap :: "'f option"   \<comment> \<open>\<open>None\<close> is Go's nil map\<close>
  Inputs :: "string list"
  PreloadFiles :: "string list"
  StopOnError :: bool

datatype error =
    OSError os_error   \<comment> \<open>an error of \<open>os.Open\<close>, \<open>Stat\<close> or \<open>Readdirnames\<close>, returned as it is\<close>
  | BlankOutputName   \<comment> \<open>\<open>errors.New("Output name cannot be blank")\<close>\<close>
  | MkdirFailed string os_error   \<comment> \<open>\<open>"Error creating directory for %q: %v"\<close>\<close>
  | OutputOpenFailed string os_error   \<comment> \<open>\<open>"Cannot open output file %q: %v"\<close>\<close>
  | ParseFailed string string   \<comment> \<open>\<open>"Cannot parse templates [%s]: %v"\<close>\<close>
  | ExecFailed string   \<comment> \<open>the error of \<open>tpl.Execute\<close>, returned as it is\<close>
  | IndexOutOfRange   \<comment> \<open>the run-time panic of \<open>inames[len(inames)-1]\<close> on an empty list\<close>

fun Error :: "error \<Rightarrow> string option" where
  \<comment> \<open>the message of a template error, as \<open>fmt.Errorf\<close> builds it\<close>
  "Error (ParseFailed names msg) = Some (''Cannot parse templates ['' @ names @ '']: '' @ msg)"
| "Error (ExecFailed msg) = Some msg"
| "Error e = None"

definition strip_suffix :: "string \<Rightarrow> string" where
  \<comment> \<open>lines 89 to 93 of \<open>getOutputPath\<close>\<close>
  "strip_suffix fn =
     (if HasSuffix fn ''.tpl'' then TrimSuffix fn ''.tpl''
      else if HasSuffix fn ''.tmpl'' then TrimSuffix fn ''.tmpl''
      else fn)"

definition getOutputPath :: "world \<Rightarrow> string \<Rightarrow> string \<Rightarrow> string \<times> world" where
  "getOutputPath w base fn =
     (if base = [] \<or> base = ''-'' then (''-'', w)
      else
        let fn' = strip_suffix fn in
        if HasSuffix base ''/'' then (filepath_Join [base, fn'], w)
        else (case os_Open w base of
                (Inr f, w1) \<Rightarrow>
                  (case file_Stat w1 f of
                     Inr isdir \<Rightarrow> if isdir then (filepath_Join [base, fn'], w1) else (base, w1)
                   | Inl e \<Rightarrow> (base, w1))
              | (Inl e, w1) \<Rightarrow> (base, w1)))"

definition open_output ::
  "world \<Rightarrow> string list \<Rightarrow> string \<Rightarrow> (error + os_file option) \<times> world"
where
  \<comment> \<open>lines 112 to 131 of \<open>render\<close>; \<open>None\<close> is \<open>os.Stdout\<close>\<close>
  "open_output w inames oname =
     (if oname = ''-'' then
        (Inr None, w\<lparr>logged := logged w @
                       [''Rendering ['' @ strings_Join inames '', '' @ ''] to STDOUT'']\<rparr>)
      else
        (case (if Contains oname ''/'' then os_MkdirAll w (path_Dir oname) else (None, w)) of
           (Some e, w1) \<Rightarrow> (Inl (MkdirFailed oname e), w1)
         | (None, w1) \<Rightarrow>
             (case os_OpenFile w1 oname [O_WRONLY, O_CREATE, O_APPEND] of
                (Inl e, w2) \<Rightarrow> (Inl (OutputOpenFailed oname e), w2)
              | (Inr out, w2) \<Rightarrow>
                  (Inr (Some out), w2\<lparr>logged := logged w2 @
                         [''Rendering ['' @ strings_Join inames '', '' @ ''] into '' @ oname]\<rparr>))))"

definition write_output :: "world \<Rightarrow> os_file option \<Rightarrow> string \<Rightarrow> world" where
  "write_output w out bs =
     (case out of None \<Rightarrow> w\<lparr>stdout := stdout w @ bs\<rparr> | Some f \<Rightarrow> file_Write w f bs)"

definition render ::
  "('f, 't, 'v) engine \<Rightarrow> 'f Renderer \<Rightarrow> 'v \<Rightarrow> string list \<Rightarrow> string \<Rightarrow> world \<Rightarrow> error option \<times> world"
where
  "render eng r values inames oname w =
     (if oname = [] then (Some BlankOutputName, w)
      else
        (case open_output w inames oname of
           (Inl e, w1) \<Rightarrow> (Some e, w1)
         | (Inr out, w1) \<Rightarrow>
             if inames = [] then (Some IndexOutOfRange, w1)
             else
               (case ParseFiles eng (Base (last inames)) (FuncMap r) inames (os_ReadFile w1) of
                  Inl msg \<Rightarrow> (Some (ParseFailed (strings_Join inames '', '') msg), w1)
                | Inr tpl \<Rightarrow>
                    (case Execute_tpl eng
                            (if StopOnError r then MissingKeyError else MissingKeyZero) tpl values of
                       (bs, err) \<Rightarrow> (map_option ExecFailed err, write_output w1 out bs)))))"

definition sort_names :: "string list \<Rightarrow> string list" where
  \<comment> \<open>Modelled from the spec: the type \<open>stringSorter\<close> is declared outside
      \<open>renderer.go\<close>; the spec says the generated child paths are sorted lexicographically,
      which for Go strings is the order of their bytes.\<close>
  "sort_names names = sort names"

definition child_outpath :: "string \<Rightarrow> string \<Rightarrow> string" where
  \<comment> \<open>lines 71 to 74 of \<open>execute\<close>\<close>
  "child_outpath out dirname =
     (if HasSuffix out ''/'' then out @ Base dirname @ ''/'' else out)"

text \<open>
  \<open>execute\<close> loops over its inputs and calls itself on the entries of a directory. The
  first argument bounds the depth of these nested calls: \<open>None\<close> says that the bound was
  reached. A result \<open>Some (None, w)\<close> is Go's \<open>nil\<close> error.
\<close>

fun execute ::
  "nat \<Rightarrow> ('f, 't, 'v) engine \<Rightarrow> 'f Renderer \<Rightarrow> string list \<Rightarrow> string \<Rightarrow> 'v \<Rightarrow> world
     \<Rightarrow> (error option \<times> world) option"
where
  "execute depth eng r [] out values w = Some (None, w)"
| "execute depth eng r (fn # inputs) out values w =
     (case os_Open w fn of
        (Inl e, w1) \<Rightarrow> Some (Some (OSError e), w1)
      | (Inr f, w1) \<Rightarrow>
          (case file_Stat w1 f of
             Inl e \<Rightarrow> Some (Some (OSError e), w1)
           | Inr isdir \<Rightarrow>
               if \<not> isdir then
                 (case getOutputPath w1 out (Base fn) of
                    (oname, w2) \<Rightarrow>
                      (case render eng r values (PreloadFiles r @ [fn]) oname w2 of
                         (Some e, w3) \<Rightarrow> Some (Some e, w3)
                       | (None, w3) \<Rightarrow> execute depth eng r inputs out values w3))
               else
                 (case file_Readdirnames w1 f of
                    Inl e \<Rightarrow> Some (Some (OSError e), w1)
                  | Inr eis \<Rightarrow>
                      (case depth of
                         0 \<Rightarrow> None
                       | Suc d \<Rightarrow>
                           (case execute d eng r
                                   (sort_names (map (\<lambda>ei. filepath_Join [Name f, ei]) eis))
                                   (child_outpath out (Name f)) values w1 of
                              None \<Rightarrow> None
                            | Some (Some e, w2) \<Rightarrow> Some (Some e, w2)
                            | Some (None, w2) \<Rightarrow> execute depth eng r inputs out values w2)))))"

definition Execute ::
  "nat \<Rightarrow> ('f, 't, 'v) engine \<Rightarrow> 'f Renderer \<Rightarrow> string \<Rightarrow> 'v \<Rightarrow> world
     \<Rightarrow> (error option \<times> world) option"
where
  "Execute depth eng r out values w = execute depth eng r (Inputs r) out values w"

section \<open>The traversal as the spec words it\<close>

text \<open>
  The traversal algorithm of the spec (section 4.1, steps 1 to 3), written once more from
  its words, to be compared with \<open>execute\<close>. It runs over an explicit description of the
  files and directories it is going to meet, so it needs no bound on its depth: a regular
  file, or a directory with the descriptions of its children. Each input is opened; a
  regular file is rendered with the preload files before it; the entries of a directory are
  joined to its path and sorted, the result has to be the children's names in their order,
  and the children are traversed under the new output target before the next input. The
  first error ends the traversal. \<open>None\<close> says that the description does not fit what
  was met.
\<close>

datatype plan = PFile string | PDir string "plan list"

fun plan_name :: "plan \<Rightarrow> string" where
  "plan_name (PFile fn) = fn"
| "plan_name (PDir fn children) = fn"

fun plan_depth :: "plan \<Rightarrow> nat" where
  "plan_depth (PFile fn) = 0"
| "plan_depth (PDir fn children) = Suc (foldr max (map plan_depth children) 0)"

definition plans_depth :: "plan list \<Rightarrow> nat" where
  "plans_depth ps = foldr max (map plan_depth ps) 0"

fun spec_traverse ::
  "('f, 't, 'v) engine \<Rightarrow> 'f Renderer \<Rightarrow> plan list \<Rightarrow> string \<Rightarrow> 'v \<Rightarrow> world
     \<Rightarrow> (error option \<times> world) option"
where
  "spec_traverse eng r [] out values w = Some (None, w)"
| "spec_traverse eng r (PFile fn # ps) out values w =
     (case os_Open w fn of
        (Inl e, w1) \<Rightarrow> Some (Some (OSError e), w1)
      | (Inr f, w1) \<Rightarrow>
          (case file_Stat w1 f of
             Inl e \<Rightarrow> Some (Some (OSError e), w1)
           | Inr isdir \<Rightarrow>
               if isdir then None
               else
                 (case getOutputPath w1 out (Base fn) of
                    (oname, w2) \<Rightarrow>
                      (case render eng r values (PreloadFiles r @ [fn]) oname w2 of
                         (Some e, w3) \<Rightarrow> Some (Some e, w3)
                       | (None, w3) \<Rightarrow> spec_traverse eng r ps out values w3))))"
| "spec_traverse eng r (PDir fn children # ps) out values w =
     (case os_Open w fn of
        (Inl e, w1) \<Rightarrow> Some (Some (OSError e), w1)
      | (Inr f, w1) \<Rightarrow>
          (case file_Stat w1 f of
             Inl e \<Rightarrow> Some (Some (OSError e), w1)
           | Inr isdir \<Rightarrow>
               if \<not> isdir then None
               else
                 (case file_Readdirnames w1 f of
                    Inl e \<Rightarrow> Some (Some (OSError e), w1)
                  | Inr eis \<Rightarrow>
                      if map plan_name children \<noteq> sort (map (\<lambda>ei. filepath_Join [fn, ei]) eis)
                      then None
                      else
                        (case spec_traverse eng r children
                                (if HasSuffix out ''/'' then out @ Base fn @ ''/'' else out)
                                values w1 of
                           None \<Rightarrow> None
                         | Some (Some e, w2) \<Rightarrow> Some (Some e, w2)
                         | Some (None, w2) \<Rightarrow> spec_traverse eng r ps out values w2))))"

section \<open>Concrete inputs\<close>

definition sample_world :: world where
  "sample_world =
     \<lparr>files = [([''templates''], Dir),
               ([''templates'', ''ok.txt.tpl''], File ''ok''),
               ([''templates'', ''deep''], Dir),
               ([''templates'', ''deep'', ''ok2.txt.tpl''], File ''ok2''),
               ([''lib.tpl''], File ''lib''),
               ([''notes.txt''], File ''old'')],
      stdout = [], logged = [], opened = []\<rparr>"

definition sample_renderer :: "unit Renderer" where
  "sample_renderer =
     \<lparr>FuncMap = None, Inputs = [''templates''], PreloadFiles = [''lib.tpl''],
      StopOnError = True\<rparr>"

definition names_directory :: "world \<Rightarrow> string \<Rightarrow> bool" where
  \<comment> \<open>the path names an existing directory of the file system\<close>
  "names_directory w p =
     (case resolve (files w) p of
        Inl e \<Rightarrow> False
      | Inr k \<Rightarrow> lookup_node (files w) k = Some Dir)"

definition opened_templates :: world where
  "opened_templates = sample_world\<lparr>opened := [''templates'']\<rparr>"



definition missing_preload :: "unit Renderer" where
  "missing_preload = sample_renderer\<lparr>PreloadFiles := [''nolib.tpl'']\<rparr>"



section \<open>Go's template engine on a fragment of its language\<close>

text \<open>
  An engine after Go's \<open>text/template\<close> (which is outside the repository), for the
  claims that rest on what the engine does with the renderer's calls. Template sources are
  taken as parsed: a parser, given as a parameter, turns the text of a file into the named
  trees it defines (the tree of the file itself under the name handed to it, and one for
  each \<open>define\<close>), as \<open>parse.Parse\<close> does. A tree is a list of text nodes, field
  actions \<open>{{.a.b}}\<close> and template calls \<open>{{template "name" .}}\<close>. Values are nil,
  strings and maps with string keys. The definitions follow the library's functions of the
  same names; error messages are the library's without the prefix that locates them in the
  template. Helper functions are not part of the fragment.

  \<^item> \<open>associate\<close>: a template body that is empty (white space only) does not replace
    an existing template of that name; any other body does.
  \<^item> \<open>AddParseTree\<close>, \<open>parseFiles\<close>: the files are parsed in the order given, each
    under its base name; the template that \<open>Execute\<close> runs is the one the set was
    created with.
  \<^item> \<open>evalField\<close>: a key missing from a map is an error under \<open>missingkey=error\<close> and
    the zero value of the map's element type, nil for \<open>interface{}\<close>, under
    \<open>missingkey=zero\<close>; a field of nil is an error under both.
  \<^item> \<open>printValue\<close>: nil is printed as \<open><no value>\<close>.
  \<^item> \<open>walk\<close>: nested template calls are bounded by \<open>maxExecDepth\<close> (100000 in Go).
\<close>

datatype gvalue = Nil | Str string | Map "(string \<times> gvalue) list"

datatype tnode = Text string | Field "string list" | Template string

type_synonym tree = "tnode list"

type_synonym tset = "(string \<times> tree) list"

record template =
  tname :: string
  ttree :: "tree option"
  tcommon :: tset

definition isSpace :: "char \<Rightarrow> bool" where
  \<comment> \<open>the white space that \<open>bytes.TrimSpace\<close> removes, within ASCII\<close>
  "isSpace c = (c \<in> set [CHR '' '', CHR 0x09, CHR 0x0A, CHR 0x0B, CHR 0x0C, CHR 0x0D])"

fun IsEmptyNode :: "tnode \<Rightarrow> bool" where
  "IsEmptyNode (Text s) = list_all isSpace s"
| "IsEmptyNode n = False"

definition IsEmptyTree :: "tree \<Rightarrow> bool" where
  \<comment> \<open>\<open>parse.IsEmptyTree\<close>: nothing but text nodes of white space\<close>
  "IsEmptyTree t = list_all IsEmptyNode t"

definition associate :: "tset \<Rightarrow> string \<Rightarrow> tree \<Rightarrow> bool" where
  \<comment> \<open>whether the new tree is installed under the name: not when a template of that name
      exists and the new tree is empty\<close>
  "associate ts name t = (\<not> (map_of ts name \<noteq> None \<and> IsEmptyTree t))"

definition AddParseTree :: "bool \<Rightarrow> template \<Rightarrow> string \<times> tree \<Rightarrow> template" where
  \<comment> \<open>one named tree of a parsed text is added to the set; the tree of the template the
      set was created with is set when the text is parsed under that template's name and the
      tree is installed or the template has no tree yet\<close>
  "AddParseTree receiver_is_root t nt =
     (let name = fst nt; tr = snd nt;
          ok = associate (tcommon t) name tr;
          t1 = (if ok then t\<lparr>tcommon := AList.update name tr (tcommon t)\<rparr> else t)
      in if receiver_is_root \<and> name = tname t \<and> (ok \<or> ttree t = None)
         then t1\<lparr>ttree := Some tr\<rparr> else t1)"

fun parseFiles ::
  "(string \<Rightarrow> string \<Rightarrow> string + (string \<times> tree) list) \<Rightarrow> (string \<Rightarrow> os_error + string)
     \<Rightarrow> template \<Rightarrow> string list \<Rightarrow> string + template"
where
  \<comment> \<open>each file in turn is read and parsed under its base name; the first error ends the
      call\<close>
  "parseFiles ps rd t [] = Inr t"
| "parseFiles ps rd t (filename # filenames) =
     (case rd filename of
        Inl e \<Rightarrow> Inl (os_error_text e)
      | Inr text \<Rightarrow>
          (case ps (Base filename) text of
             Inl msg \<Rightarrow> Inl msg
           | Inr trees \<Rightarrow>
               parseFiles ps rd (foldl (AddParseTree (Base filename = tname t)) t trees)
                 filenames))"

definition go_ParseFiles ::
  "(string \<Rightarrow> string \<Rightarrow> string + (string \<times> tree) list) \<Rightarrow> string \<Rightarrow> 'f option \<Rightarrow> string list
     \<Rightarrow> (string \<Rightarrow> os_error + string) \<Rightarrow> string + template"
where
  "go_ParseFiles ps name funcs filenames rd =
     (if filenames = [] then Inl ''template: no files named in call to ParseFiles''
      else parseFiles ps rd \<lparr>tname = name, ttree = None, tcommon = []\<rparr> filenames)"

fun fmt_v :: "gvalue \<Rightarrow> string" where
  \<comment> \<open>\<open>fmt.Fprint\<close> of a value: a map is printed with its keys in sorted order\<close>
  "fmt_v Nil = ''<nil>''"
| "fmt_v (Str s) = s"
| "fmt_v (Map kvs) =
     ''map['' @ strings_Join
        (map (\<lambda>kv. fst kv @ '':'' @ snd kv)
           (sort_key fst (map (\<lambda>kv. (fst kv, fmt_v (snd kv))) kvs))) '' '' @ '']''"

definition printValue :: "gvalue \<Rightarrow> string" where
  "printValue v = (case v of Nil \<Rightarrow> ''<no value>'' | _ \<Rightarrow> fmt_v v)"

definition quoted :: "string \<Rightarrow> string" where
  \<comment> \<open>the verb \<open>%q\<close> on a string that needs no escapes\<close>
  "quoted s = CHR 0x22 # s @ [CHR 0x22]"

fun evalField :: "missingkey \<Rightarrow> gvalue \<Rightarrow> string \<Rightarrow> string + gvalue" where
  "evalField mk (Map kvs) fieldName =
     (case map_of kvs fieldName of
        Some v \<Rightarrow> Inr v
      | None \<Rightarrow>
          (case mk of
             MissingKeyError \<Rightarrow> Inl (''map has no entry for key '' @ quoted fieldName)
           | MissingKeyZero \<Rightarrow> Inr Nil))"
| "evalField mk Nil fieldName = Inl (''nil pointer evaluating interface {}.'' @ fieldName)"
| "evalField mk (Str s) fieldName =
     Inl (''can't evaluate field '' @ fieldName @ '' in type string'')"

fun evalFieldChain :: "missingkey \<Rightarrow> gvalue \<Rightarrow> string list \<Rightarrow> string + gvalue" where
  "evalFieldChain mk receiver [] = Inr receiver"
| "evalFieldChain mk receiver (k # ks) =
     (case evalField mk receiver k of
        Inl e \<Rightarrow> Inl e
      | Inr v \<Rightarrow> evalFieldChain mk v ks)"

fun walk :: "nat \<Rightarrow> missingkey \<Rightarrow> tset \<Rightarrow> gvalue \<Rightarrow> tree \<Rightarrow> string \<times> string option" where
  \<comment> \<open>the nodes are executed in order and write as they go: the bytes written before an
      error stay written; \<open>d\<close> is the number of nested template calls still allowed\<close>
  "walk d mk ts dot [] = ([], None)"
| "walk d mk ts dot (Text s # ns) =
     (case walk d mk ts dot ns of (out, err) \<Rightarrow> (s @ out, err))"
| "walk d mk ts dot (Field ks # ns) =
     (case evalFieldChain mk dot ks of
        Inl e \<Rightarrow> ([], Some e)
      | Inr v \<Rightarrow> (case walk d mk ts dot ns of (out, err) \<Rightarrow> (printValue v @ out, err)))"
| "walk d mk ts dot (Template name # ns) =
     (case map_of ts name of
        None \<Rightarrow> ([], Some (''template '' @ quoted name @ '' not defined''))
      | Some t \<Rightarrow>
          (case d of
             0 \<Rightarrow> ([], Some ''exceeded maximum template depth'')
           | Suc d' \<Rightarrow>
               (case walk d' mk ts dot t of
                  (out, Some e) \<Rightarrow> (out, Some e)
                | (out, None) \<Rightarrow>
                    (case walk d mk ts dot ns of (out', err) \<Rightarrow> (out @ out', err)))))"

definition go_Execute ::
  "nat \<Rightarrow> missingkey \<Rightarrow> template \<Rightarrow> (string \<times> gvalue) list \<Rightarrow> string \<times> string option"
where
  "go_Execute maxExecDepth mk t data =
     (case ttree t of
        None \<Rightarrow> ([], Some (''template: '' @ quoted (tname t) @ '' is an incomplete or empty template''))
      | Some tr \<Rightarrow> walk maxExecDepth mk (tcommon t) (Map data) tr)"

definition go_engine ::
  "(string \<Rightarrow> string \<Rightarrow> string + (string \<times> tree) list) \<Rightarrow> nat
     \<Rightarrow> ('f, template, (string \<times> gvalue) list) engine"
where
  "go_engine ps maxExecDepth =
     \<lparr>ParseFiles = go_ParseFiles ps, Execute_tpl = go_Execute maxExecDepth\<rparr>"

text \<open>
  Concrete template sources: a table of the texts used below with the trees Go's parser
  gives for them; any other text without an action is one text node.
\<close>

definition sample_syntax :: "(string \<times> (string \<Rightarrow> (string \<times> tree) list)) list" where
  \<open>sample_syntax =
     [(''Hello {{.Name}}'', \<lambda>name. [(name, [Text ''Hello '', Field [''Name'']])]),
      (''{{.a.b}}'', \<lambda>name. [(name, [Field [''a'', ''b'']])]),
      (''{{define "x"}}hello{{end}}'', \<lambda>name. [(name, []), (''x'', [Text ''hello''])]),
      (''{{define "x"}}bye{{end}}{{template "x" .}}'',
         \<lambda>name. [(name, [Template ''x'']), (''x'', [Text ''bye''])]),
      (''{{define "x"}}{{end}}{{template "x" .}}'',
         \<lambda>name. [(name, [Template ''x'']), (''x'', [])])]\<close>

definition sample_parse :: "string \<Rightarrow> string \<Rightarrow> string + (string \<times> tree) list" where
  "sample_parse name text =
     (case map_of sample_syntax text of
        Some trees \<Rightarrow> Inr (trees name)
      | None \<Rightarrow>
          if Contains text ''{{'' then Inl (''template: '' @ name @ '': not in the table'')
          else Inr [(name, if text = [] then [] else [Text text])])"

definition text_engine :: "(unit, template, unit) engine" where
  \<comment> \<open>the engine run without values, that is on the empty map, with a depth that is
      enough for the templates used below\<close>
  "text_engine =
     \<lparr>ParseFiles = go_ParseFiles sample_parse,
      Execute_tpl = (\<lambda>mk t values. go_Execute 8 mk t [])\<rparr>"



definition go_world :: world where
  \<open>go_world =
     \<lparr>files = [([''hello.tpl''], File ''Hello {{.Name}}''),
               ([''nested.tpl''], File ''{{.a.b}}''),
               ([''lib.tpl''], File ''{{define "x"}}hello{{end}}''),
               ([''page.tpl''], File ''{{define "x"}}bye{{end}}{{template "x" .}}''),
               ([''blank.tpl''], File ''{{define "x"}}{{end}}{{template "x" .}}'')],
      stdout = [], logged = [], opened = []\<rparr>\<close>

definition strict :: "unit Renderer" where
  "strict = \<lparr>FuncMap = None, Inputs = [], PreloadFiles = [], StopOnError = True\<rparr>"

definition lenient :: "unit Renderer" where
  "lenient = \<lparr>FuncMap = None, Inputs = [], PreloadFiles = [], StopOnError = False\<rparr>"

definition with_lib :: "unit Renderer" where
  "with_lib = \<lparr>FuncMap = None, Inputs = [], PreloadFiles = [''lib.tpl''], StopOnError = True\<rparr>"

definition hello_opened :: world where
  "hello_opened = go_world\<lparr>logged := [''Rendering [hello.tpl] to STDOUT'']\<rparr>"

definition hello_template :: template where
  "hello_template =
     \<lparr>tname = ''hello.tpl'', ttree = Some [Text ''Hello '', Field [''Name'']],
      tcommon = [(''hello.tpl'', [Text ''Hello '', Field [''Name'']])]\<rparr>"

definition nested_opened :: world where
  "nested_opened = go_world\<lparr>logged := [''Rendering [nested.tpl] to STDOUT'']\<rparr>"

definition nested_template :: template where
  "nested_template =
     \<lparr>tname = ''nested.tpl'', ttree = Some [Field [''a'', ''b'']],
      tcommon = [(''nested.tpl'', [Field [''a'', ''b'']])]\<rparr>"




definition templates_plan :: "plan list" where
  "templates_plan =
     [PDir ''templates''
        [PDir ''templates/deep'' [PFile ''templates/deep/ok2.txt.tpl''],
         PFile ''templates/ok.txt.tpl'']]"

definition mirrored_world :: world where
  "mirrored_world =
     \<lparr>files = [([''templates''], Dir),
               ([''templates'', ''ok.txt.tpl''], File ''ok''),
               ([''templates'', ''deep''], Dir),
               ([''templates'', ''deep'', ''ok2.txt.tpl''], File ''ok2''),
               ([''lib.tpl''], File ''lib''),
               ([''notes.txt''], File ''old''),
               ([''out''], Dir),
               ([''out'', ''templates''], Dir),
               ([''out'', ''templates'', ''deep''], Dir),
               ([''out'', ''templates'', ''deep'', ''ok2.txt''], File ''ok2''),
               ([''out'', ''templates'', ''ok.txt''], File ''ok'')],
      stdout = [],
      logged = [''Rendering [lib.tpl, templates/deep/ok2.txt.tpl] into out/templates/deep/ok2.txt'',
                ''Rendering [lib.tpl, templates/ok.txt.tpl] into out/templates/ok.txt''],
      opened = [''templates'', ''templates/deep'', ''templates/deep/ok2.txt.tpl'',
                ''out/templates/deep/ok2.txt'', ''templates/ok.txt.tpl'',
                ''out/templates/ok.txt'']\<rparr>"

definition given_order :: "unit Renderer" where
  "given_order = sample_renderer\<lparr>Inputs := [''templates/ok.txt.tpl'', ''templates/deep'']\<rparr>"

definition given_order_plan :: "plan list" where
  "given_order_plan =
     [PFile ''templates/ok.txt.tpl'',
      PDir ''templates/deep'' [PFile ''templates/deep/ok2.txt.tpl'']]"

definition given_order_world :: world where
  "given_order_world =
     \<lparr>files = [([''templates''], Dir),
               ([''templates'', ''ok.txt.tpl''], File ''ok''),
               ([''templates'', ''deep''], Dir),
               ([''templates'', ''deep'', ''ok2.txt.tpl''], File ''ok2''),
               ([''lib.tpl''], File ''lib''),
               ([''notes.txt''], File ''old''),
               ([''out''], Dir),
               ([''out'', ''ok.txt''], File ''ok''),
               ([''out'', ''deep''], Dir),
               ([''out'', ''deep'', ''ok2.txt''], File ''ok2'')],
      stdout = [],
      logged = [''Rendering [lib.tpl, templates/ok.txt.tpl] into out/ok.txt'',
                ''Rendering [lib.tpl, templates/deep/ok2.txt.tpl] into out/deep/ok2.txt''],
      opened = [''templates/ok.txt.tpl'', ''out/ok.txt'', ''templates/deep'',
                ''templates/deep/ok2.txt.tpl'', ''out/deep/ok2.txt'']\<rparr>"

section \<open>Suffixes and output paths\<close>

lemma HasSuffix_append [simp]: "HasSuffix (s @ suf) suf"
  by (simp add: HasSuffix_def)

lemma TrimSuffix_append [simp]: "TrimSuffix (s @ suf) suf = s"
  by (simp add: TrimSuffix_def)





lemma getOutputPath_stdout:
  "base = [] \<or> base = ''-'' \<Longrightarrow> getOutputPath w base fn = (''-'', w)"
  by (auto simp: getOutputPath_def)

lemma getOutputPath_slash:
  "HasSuffix base ''/'' \<Longrightarrow>
   getOutputPath w base fn = (filepath_Join [base, strip_suffix fn], w)"
  by (auto simp: getOutputPath_def HasSuffix_def)



lemma getOutputPath_directory:
  assumes "base \<noteq> []" and "base \<noteq> ''-''" and "names_directory w base"
  shows "fst (getOutputPath w base fn) = filepath_Join [base, strip_suffix fn]"
proof -
  from assms(3) obtain k where "resolve (files w) base = Inr k"
    and "lookup_node (files w) k = Some Dir"
    by (auto simp: names_directory_def split: sum.splits)
  with assms(1,2) show ?thesis
    by (simp add: getOutputPath_def os_Open_def file_Stat_def Let_def)
qed

lemma getOutputPath_verbatim:
  assumes "base \<noteq> []" and "base \<noteq> ''-''" and "\<not> HasSuffix base ''/''"
    and "\<not> names_directory w base"
  shows "fst (getOutputPath w base fn) = base"
proof (cases "resolve (files w) base")
  case (Inl e)
  with assms(1-3) show ?thesis
    by (simp add: getOutputPath_def os_Open_def Let_def)
next
  case (Inr k)
  with assms(4) have "lookup_node (files w) k \<noteq> Some Dir"
    by (simp add: names_directory_def)
  with Inr assms(1-3) show ?thesis
    by (auto simp: getOutputPath_def os_Open_def file_Stat_def Let_def
        split: option.splits node.splits)
qed

lemma clean_step_nonempty:
  "\<forall>x\<in>set st. x \<noteq> [] \<Longrightarrow> \<forall>x\<in>set (clean_step rooted st c). x \<noteq> []"
  by (auto simp: clean_step_def dest: in_set_butlastD)

lemma foldl_clean_step_nonempty:
  "\<forall>x\<in>set st. x \<noteq> [] \<Longrightarrow> \<forall>x\<in>set (foldl (clean_step rooted) st cs). x \<noteq> []"
proof (induction cs arbitrary: st)
  case Nil
  then show ?case by simp
next
  case (Cons c cs)
  show ?case
    using Cons.IH [OF clean_step_nonempty [OF Cons.prems]] by simp
qed

lemma strings_Join_nonempty:
  "st \<noteq> [] \<Longrightarrow> \<forall>x\<in>set st. x \<noteq> [] \<Longrightarrow> strings_Join st sep \<noteq> []"
  by (induction st sep rule: strings_Join.induct) auto

lemma Clean_nonempty: "Clean p \<noteq> []"
proof -
  have "\<forall>x\<in>set (foldl (clean_step b) [] (strings_Split p)). x \<noteq> []" for b
    by (rule foldl_clean_step_nonempty) simp
  then show ?thesis
    by (auto simp: Clean_def Let_def strings_Join_nonempty)
qed

lemma filepath_Join_nonempty: "base \<noteq> [] \<Longrightarrow> filepath_Join [base, fn] \<noteq> []"
  by (simp add: filepath_Join_def Clean_nonempty)

lemma getOutputPath_nonempty: "fst (getOutputPath w base fn) \<noteq> []"
  by (auto simp: getOutputPath_def Let_def filepath_Join_nonempty
      split: prod.splits sum.splits)



text \<open>
  C2. \<open>getOutputPath\<close> gives \<open>-\<close> when the target is empty or \<open>-\<close>, whatever the
  file name. Otherwise, when the target ends with a slash or names an existing directory, it
  gives the target joined with the file name less its suffix; in every other case it gives
  the target as it is.
\<close>

theorem getOutputPath_cases:
  "(base = [] \<or> base = ''-'' \<longrightarrow> getOutputPath w base fn = (''-'', w))
   \<and> (base \<noteq> [] \<and> base \<noteq> ''-'' \<and> (HasSuffix base ''/'' \<or> names_directory w base)
        \<longrightarrow> fst (getOutputPath w base fn) = filepath_Join [base, strip_suffix fn])
   \<and> (base \<noteq> [] \<and> base \<noteq> ''-'' \<and> \<not> HasSuffix base ''/'' \<and> \<not> names_directory w base
        \<longrightarrow> fst (getOutputPath w base fn) = base)"
proof (intro conjI impI)
  show "getOutputPath w base fn = (''-'', w)" if "base = [] \<or> base = ''-''"
    using that by (rule getOutputPath_stdout)
  show "fst (getOutputPath w base fn) = filepath_Join [base, strip_suffix fn]"
    if h: "base \<noteq> [] \<and> base \<noteq> ''-'' \<and> (HasSuffix base ''/'' \<or> names_directory w base)"
  proof (cases "HasSuffix base ''/''")
    case True
    then show ?thesis by (simp add: getOutputPath_slash)
  next
    case False
    with h show ?thesis by (simp add: getOutputPath_directory)
  qed
  show "fst (getOutputPath w base fn) = base"
    if "base \<noteq> [] \<and> base \<noteq> ''-'' \<and> \<not> HasSuffix base ''/'' \<and> \<not> names_directory w base"
    using that by (simp add: getOutputPath_verbatim)
qed

theorem getOutputPath_cases_witness:
  "getOutputPath sample_world ''-'' ''ok.txt.tpl'' = (''-'', sample_world)
   \<and> getOutputPath sample_world [] ''ok.txt.tpl'' = (''-'', sample_world)
   \<and> names_directory sample_world ''templates'' \<and> \<not> HasSuffix ''templates'' ''/''
   \<and> fst (getOutputPath sample_world ''templates'' ''ok.txt.tpl'') = ''templates/ok.txt''
   \<and> HasSuffix ''out/'' ''/'' \<and> \<not> names_directory sample_world ''out/''
   \<and> fst (getOutputPath sample_world ''out/'' ''ok.txt.tpl'') = ''out/ok.txt''
   \<and> \<not> names_directory sample_world ''notes.txt'' \<and> \<not> HasSuffix ''notes.txt'' ''/''
   \<and> fst (getOutputPath sample_world ''notes.txt'' ''ok.txt.tpl'') = ''notes.txt''"
proof -
  have d: "names_directory sample_world ''templates''"
    "\<not> names_directory sample_world ''out/''" "\<not> names_directory sample_world ''notes.txt''"
    by code_simp+
  have s: "\<not> HasSuffix ''templates'' ''/''" "HasSuffix ''out/'' ''/''"
    "\<not> HasSuffix ''notes.txt'' ''/''"
    by (simp_all add: HasSuffix_def)
  have j: "filepath_Join [''templates'', strip_suffix ''ok.txt.tpl''] = ''templates/ok.txt''"
    "filepath_Join [''out/'', strip_suffix ''ok.txt.tpl''] = ''out/ok.txt''"
    by code_simp+
  have a: "getOutputPath sample_world ''-'' ''ok.txt.tpl'' = (''-'', sample_world)"
    using getOutputPath_cases [of "''-''" sample_world "''ok.txt.tpl''"] by simp
  have b: "getOutputPath sample_world [] ''ok.txt.tpl'' = (''-'', sample_world)"
    using getOutputPath_cases [of "[]" sample_world "''ok.txt.tpl''"] by simp
  have c: "fst (getOutputPath sample_world ''templates'' ''ok.txt.tpl'') = ''templates/ok.txt''"
    using getOutputPath_cases [of "''templates''" sample_world "''ok.txt.tpl''"] d s
    by (simp add: j)
  have e: "fst (getOutputPath sample_world ''out/'' ''ok.txt.tpl'') = ''out/ok.txt''"
    using getOutputPath_cases [of "''out/''" sample_world "''ok.txt.tpl''"] d s
    by (simp add: j)
  have f: "fst (getOutputPath sample_world ''notes.txt'' ''ok.txt.tpl'') = ''notes.txt''"
    using getOutputPath_cases [of "''notes.txt''" sample_world "''ok.txt.tpl''"] d s
    by simp
  from a b c d e f s show ?thesis by simp
qed

section \<open>The traversal\<close>

lemma os_Open_Name: "os_Open w fn = (Inr f, w1) \<Longrightarrow> Name f = fn"
  by (auto simp: os_Open_def Let_def split: if_splits option.splits sum.splits)



lemma render_not_blank:
  "oname \<noteq> [] \<Longrightarrow> fst (render eng r v inames oname w) \<noteq> Some BlankOutputName"
  by (auto simp: render_def open_output_def split: sum.splits prod.splits if_splits option.splits)

lemma execute_not_blank:
  "execute d eng r xs out v w \<noteq> Some (Some BlankOutputName, w')"
proof (induction d eng r xs out v w rule: execute.induct)
  case (1 depth eng r out "values" w)
  show ?case by simp
next
  case (2 depth eng r fn inputs out "values" w)
  show ?case
  proof
    assume a: "execute depth eng r (fn # inputs) out values w = Some (Some BlankOutputName, w')"
    obtain res w1 where o: "os_Open w fn = (res, w1)" by (cases "os_Open w fn")
    show False
    proof (cases res)
      case (Inl e) with a o show ?thesis by simp
    next
      case (Inr f)
      note f = this
      show ?thesis
      proof (cases "file_Stat w1 f")
        case (Inl e) with a o f show ?thesis by simp
      next
        case (Inr isdir)
        note st = this
        show ?thesis
        proof (cases isdir)
          case False
          obtain oname w2 where g: "getOutputPath w1 out (Base fn) = (oname, w2)"
            by (cases "getOutputPath w1 out (Base fn)")
          then have ne: "oname \<noteq> []" using getOutputPath_nonempty[of w1 out "Base fn"] by simp
          obtain e3 w3 where rn: "render eng r values (PreloadFiles r @ [fn]) oname w2 = (e3, w3)"
            by (cases "render eng r values (PreloadFiles r @ [fn]) oname w2")
          have nb: "e3 \<noteq> Some BlankOutputName"
            using render_not_blank[OF ne, of eng r "values" "PreloadFiles r @ [fn]" w2] rn by simp
          show ?thesis
          proof (cases e3)
            case None
            with a o f st False g rn
            have "execute depth eng r inputs out values w3 = Some (Some BlankOutputName, w')"
              by simp
            moreover have "execute depth eng r inputs out values w3 \<noteq> Some (Some BlankOutputName, w')"
              using "2.IH"(1) o f st False g rn None by simp
            ultimately show ?thesis by simp
          next
            case (Some e)
            with a o f st False g rn nb show ?thesis by simp
          qed
        next
          case True
          show ?thesis
          proof (cases "file_Readdirnames w1 f")
            case (Inl e) with a o f st True show ?thesis by simp
          next
            case (Inr eis)
            note rd = this
            show ?thesis
            proof (cases depth)
              case 0 with a o f st True rd show ?thesis by simp
            next
              case (Suc d')
              let ?sub = "execute d' eng r
                  (sort_names (map (\<lambda>ei. filepath_Join [Name f, ei]) eis))
                  (child_outpath out (Name f)) values w1"
              have sub: "?sub \<noteq> Some (Some BlankOutputName, w')"
                using "2.IH"(2) o f st True rd Suc by simp
              show ?thesis
              proof (cases ?sub)
                case None with a o f st True rd Suc show ?thesis by simp
              next
                case (Some p)
                obtain e2 w2 where p: "p = (e2, w2)" by (cases p)
                show ?thesis
                proof (cases e2)
                  case None
                  have "execute depth eng r inputs out values w2 \<noteq> Some (Some BlankOutputName, w')"
                    using "2.IH"(3) o f st True rd Suc Some p None by simp
                  with a o f st True rd Suc Some p None show ?thesis by simp
                next
                  case (Some e)
                  with a o f st True rd Suc \<open>?sub = Some p\<close> p sub show ?thesis by simp
                qed
              qed
            qed
          qed
        qed
      qed
    qed
  qed
qed

text \<open>
  The depth bound only decides whether a result is reached, never which: a result reached
  under one bound is the result under every larger bound.
\<close>

lemma execute_depth_Suc:
  "execute d eng r xs out v w = Some res \<Longrightarrow> execute (Suc d) eng r xs out v w = Some res"
proof (induction d eng r xs out v w arbitrary: res rule: execute.induct)
  case (1 depth eng r out "values" w)
  then show ?case by simp
next
  case (2 depth eng r fn inputs out "values" w)
  obtain ro w1 where o: "os_Open w fn = (ro, w1)" by (cases "os_Open w fn")
  show ?case
  proof (cases ro)
    case (Inl e)
    with 2 o show ?thesis by simp
  next
    case (Inr f)
    note f = this
    show ?thesis
    proof (cases "file_Stat w1 f")
      case (Inl e)
      with 2 o f show ?thesis by simp
    next
      case (Inr isdir)
      note st = this
      show ?thesis
      proof (cases isdir)
        case False
        obtain oname w2 where g: "getOutputPath w1 out (Base fn) = (oname, w2)"
          by (cases "getOutputPath w1 out (Base fn)")
        obtain e3 w3 where rn: "render eng r values (PreloadFiles r @ [fn]) oname w2 = (e3, w3)"
          by (cases "render eng r values (PreloadFiles r @ [fn]) oname w2")
        show ?thesis
        proof (cases e3)
          case None
          with "2.prems" o f st False g rn
          have "execute depth eng r inputs out values w3 = Some res" by simp
          from "2.IH"(1) [OF o [symmetric] f st _ g [symmetric] rn [symmetric] None this] False
          have "execute (Suc depth) eng r inputs out values w3 = Some res" by simp
          with o f st False g rn None show ?thesis by simp
        next
          case (Some e)
          with "2.prems" o f st False g rn have "res = (Some e, w3)" by simp
          with o f st False g rn Some show ?thesis by simp
        qed
      next
        case True
        show ?thesis
        proof (cases "file_Readdirnames w1 f")
          case (Inl e)
          with "2.prems" o f st True show ?thesis by simp
        next
          case (Inr eis)
          note rd = this
          show ?thesis
          proof (cases depth)
            case 0
            with "2.prems" o f st True rd show ?thesis by simp
          next
            case (Suc d')
            let ?sub = "\<lambda>n. execute n eng r
                (sort_names (map (\<lambda>ei. filepath_Join [Name f, ei]) eis))
                (child_outpath out (Name f)) values w1"
            show ?thesis
            proof (cases "?sub d'")
              case None
              with "2.prems" o f st True rd Suc show ?thesis by simp
            next
              case (Some p)
              have up: "?sub (Suc d') = Some p"
                using "2.IH"(2) [OF o [symmetric] f st _ rd Suc Some] True by simp
              obtain e2 w2 where p: "p = (e2, w2)" by (cases p)
              show ?thesis
              proof (cases e2)
                case None
                with "2.prems" o f st True rd Suc Some p
                have "execute depth eng r inputs out values w2 = Some res" by simp
                from "2.IH"(3) [OF o [symmetric] f st _ rd Suc Some p [symmetric] None this] True
                have "execute (Suc depth) eng r inputs out values w2 = Some res" by simp
                with o f st True rd Suc up p None show ?thesis by simp
              next
                case (Some e)
                with "2.prems" o f st True rd Suc \<open>?sub d' = Some p\<close> p
                have "res = (Some e, w2)" by simp
                with o f st True rd Suc up p Some show ?thesis by simp
              qed
            qed
          qed
        qed
      qed
    qed
  qed
qed

lemma execute_depth_mono:
  assumes "d \<le> d'" and "execute d eng r xs out v w = Some res"
  shows "execute d' eng r xs out v w = Some res"
  using assms by (induction rule: dec_induct) (auto intro: execute_depth_Suc)

text \<open>
  C9. \<open>getOutputPath\<close> never gives the empty string, for any target and file name, and
  so no call of \<open>Execute\<close> ends with the blank-output-name error of \<open>render\<close>.
\<close>

theorem blank_output_name_unreachable:
  "fst (getOutputPath w base fn) \<noteq> []
   \<and> Execute d eng r out v w \<noteq> Some (Some BlankOutputName, w')"
  by (simp add: getOutputPath_nonempty Execute_def execute_not_blank)

text \<open>
  C10. With no inputs \<open>Execute\<close> returns nil at once, at any depth bound: the world is
  unchanged, so nothing was opened, logged or written.
\<close>

theorem Execute_no_inputs:
  "Execute d eng (r\<lparr>Inputs := []\<rparr>) out v w = Some (None, w)"
  by (simp add: Execute_def)

lemma plans_depth_Cons:
  "plans_depth (p # ps) \<le> d \<longleftrightarrow> plan_depth p \<le> d \<and> plans_depth ps \<le> d"
  by (simp add: plans_depth_def)

lemma plan_depth_PDir:
  "plan_depth (PDir fn children) \<le> d \<longleftrightarrow> (\<exists>d'. d = Suc d' \<and> plans_depth children \<le> d')"
  by (cases d) (simp_all add: plans_depth_def)

lemma execute_refines_spec_traverse:
  "spec_traverse eng r ps out v w = Some res \<Longrightarrow> plans_depth ps \<le> d
   \<Longrightarrow> execute d eng r (map plan_name ps) out v w = Some res"
proof (induction eng r ps out v w arbitrary: res d rule: spec_traverse.induct)
  case (1 eng r out "values" w)
  then show ?case by simp
next
  case (2 eng r fn ps out "values" w)
  from "2.prems"(2) have dp: "plans_depth ps \<le> d"
    by (simp add: plans_depth_Cons)
  obtain ro w1 where o: "os_Open w fn = (ro, w1)" by (cases "os_Open w fn")
  show ?case
  proof (cases ro)
    case (Inl e)
    with "2.prems"(1) o show ?thesis by simp
  next
    case (Inr f)
    note f = this
    show ?thesis
    proof (cases "file_Stat w1 f")
      case (Inl e)
      with "2.prems"(1) o f show ?thesis by simp
    next
      case (Inr isdir)
      note st = this
      with "2.prems"(1) o f have nd: "\<not> isdir" by (auto split: if_splits)
      obtain oname w2 where g: "getOutputPath w1 out (Base fn) = (oname, w2)"
        by (cases "getOutputPath w1 out (Base fn)")
      obtain e3 w3 where rn: "render eng r values (PreloadFiles r @ [fn]) oname w2 = (e3, w3)"
        by (cases "render eng r values (PreloadFiles r @ [fn]) oname w2")
      show ?thesis
      proof (cases e3)
        case None
        with "2.prems"(1) o f st nd g rn
        have "spec_traverse eng r ps out values w3 = Some res" by simp
        from "2.IH" [OF o [symmetric] f st nd g [symmetric] rn [symmetric] None this dp]
        have "execute d eng r (map plan_name ps) out values w3 = Some res" .
        with o f st nd g rn None show ?thesis by simp
      next
        case (Some e)
        with "2.prems"(1) o f st nd g rn have "res = (Some e, w3)" by simp
        with o f st nd g rn Some show ?thesis by simp
      qed
    qed
  qed
next
  case (3 eng r fn children ps out "values" w)
  from "3.prems"(2) have "plan_depth (PDir fn children) \<le> d" and dp: "plans_depth ps \<le> d"
    by (simp_all only: plans_depth_Cons)
  then obtain d' where d: "d = Suc d'" and dc: "plans_depth children \<le> d'"
    by (auto simp only: plan_depth_PDir)
  obtain ro w1 where o: "os_Open w fn = (ro, w1)" by (cases "os_Open w fn")
  show ?case
  proof (cases ro)
    case (Inl e)
    with "3.prems"(1) o show ?thesis by simp
  next
    case (Inr f)
    note f = this
    from o f have nm: "Name f = fn" by (simp add: os_Open_Name)
    show ?thesis
    proof (cases "file_Stat w1 f")
      case (Inl e)
      with "3.prems"(1) o f show ?thesis by simp
    next
      case (Inr isdir)
      note st = this
      with "3.prems"(1) o f have isd: "isdir" by (auto split: if_splits)
      then have nn: "\<not> \<not> isdir" by simp
      show ?thesis
      proof (cases "file_Readdirnames w1 f")
        case (Inl e)
        with "3.prems"(1) o f st isd show ?thesis by simp
      next
        case (Inr eis)
        note rd = this
        let ?names = "sort (map (\<lambda>ei. filepath_Join [fn, ei]) eis)"
        let ?outpath = "if HasSuffix out ''/'' then out @ Base fn @ ''/'' else out"
        from "3.prems"(1) o f st isd rd have mt: "map plan_name children = ?names"
          by (auto split: if_splits)
        then have nmt: "\<not> map plan_name children \<noteq> ?names" by simp
        let ?sub = "spec_traverse eng r children ?outpath values w1"
        from "3.prems"(1) o f st isd rd mt obtain p where sub: "?sub = Some p"
          by (cases ?sub) auto
        from "3.IH"(1) [OF o [symmetric] f st nn rd nmt sub dc]
        have ex: "execute d' eng r (map plan_name children) ?outpath values w1 = Some p" .
        obtain e2 w2 where p: "p = (e2, w2)" by (cases p)
        show ?thesis
        proof (cases e2)
          case None
          with "3.prems"(1) o f st isd rd mt sub p
          have "spec_traverse eng r ps out values w2 = Some res" by simp
          from "3.IH"(2) [OF o [symmetric] f st nn rd nmt sub p [symmetric] None this dp]
          have "execute d eng r (map plan_name ps) out values w2 = Some res" .
          with o f st isd rd ex p None mt nm d show ?thesis
            by (simp add: sort_names_def child_outpath_def)
        next
          case (Some e)
          with "3.prems"(1) o f st isd rd mt sub p have "res = (Some e, w2)" by simp
          with o f st isd rd ex p Some mt nm d show ?thesis
            by (simp add: sort_names_def child_outpath_def)
        qed
      qed
    qed
  qed
qed

lemma plans_depth_files [simp]: "plans_depth (map PFile xs) = 0"
  by (induction xs) (simp_all add: plans_depth_def)

lemma plan_name_files [simp]: "map plan_name (map PFile xs) = xs"
  by (induction xs) simp_all

lemma plan_name_files_comp [simp]: "map (plan_name \<circ> PFile) xs = xs"
  by (induction xs) simp_all

lemma file_Readdirnames_of_directory:
  "file_Stat w f = Inr True \<Longrightarrow> \<exists>eis. file_Readdirnames w f = Inr eis"
  by (auto simp: file_Stat_def file_Readdirnames_def split: option.splits node.splits)

lemma plans_depth_simps [simp]:
  "plans_depth [] = 0"
  "plans_depth (PFile fn # ps) = plans_depth ps"
  "plans_depth (PDir fn cs # ps) = max (Suc (plans_depth cs)) (plans_depth ps)"
  by (simp_all add: plans_depth_def)

lemma spec_traverse_of_execute:
  "execute d eng r inputs out v w = Some res
   \<Longrightarrow> \<exists>ps. map plan_name ps = inputs \<and> plans_depth ps \<le> d
          \<and> spec_traverse eng r ps out v w = Some res"
proof (induction d eng r inputs out v w arbitrary: res rule: execute.induct)
  case (1 depth eng r out "values" w)
  then have "map plan_name [] = [] \<and> plans_depth [] \<le> depth
     \<and> spec_traverse eng r [] out values w = Some res" by simp
  then show ?case by (rule exI)
next
  case (2 depth eng r fn inputs out "values" w)
  obtain ro w1 where o: "os_Open w fn = (ro, w1)" by (cases "os_Open w fn")
  let ?rest = "map PFile inputs"
  show ?case
  proof (cases ro)
    case (Inl e)
    with "2.prems" o
    have "map plan_name (PFile fn # ?rest) = fn # inputs \<and> plans_depth (PFile fn # ?rest) \<le> depth
      \<and> spec_traverse eng r (PFile fn # ?rest) out values w = Some res" by simp
    then show ?thesis by (rule exI)
  next
    case (Inr f)
    note f = this
    from o f have nm: "Name f = fn" by (simp add: os_Open_Name)
    show ?thesis
    proof (cases "file_Stat w1 f")
      case (Inl e)
      with "2.prems" o f
      have "map plan_name (PFile fn # ?rest) = fn # inputs
        \<and> plans_depth (PFile fn # ?rest) \<le> depth
        \<and> spec_traverse eng r (PFile fn # ?rest) out values w = Some res" by simp
      then show ?thesis by (rule exI)
    next
      case (Inr isdir)
      note st = this
      show ?thesis
      proof (cases isdir)
        case False
        obtain oname w2 where g: "getOutputPath w1 out (Base fn) = (oname, w2)"
          by (cases "getOutputPath w1 out (Base fn)")
        obtain e3 w3 where rn: "render eng r values (PreloadFiles r @ [fn]) oname w2 = (e3, w3)"
          by (cases "render eng r values (PreloadFiles r @ [fn]) oname w2")
        show ?thesis
        proof (cases e3)
          case None
          with "2.prems" o f st False g rn
          have "execute depth eng r inputs out values w3 = Some res" by simp
          from "2.IH"(1) [OF o [symmetric] f st _ g [symmetric] rn [symmetric] None this] False
          obtain ps where ps: "map plan_name ps = inputs" "plans_depth ps \<le> depth"
            "spec_traverse eng r ps out values w3 = Some res" by auto
          with o f st False g rn None
          have "map plan_name (PFile fn # ps) = fn # inputs
            \<and> plans_depth (PFile fn # ps) \<le> depth
            \<and> spec_traverse eng r (PFile fn # ps) out values w = Some res" by simp
          then show ?thesis by (rule exI)
        next
          case (Some e)
          with "2.prems" o f st False g rn have "res = (Some e, w3)" by simp
          with o f st False g rn Some
          have "map plan_name (PFile fn # ?rest) = fn # inputs
            \<and> plans_depth (PFile fn # ?rest) \<le> depth
            \<and> spec_traverse eng r (PFile fn # ?rest) out values w = Some res" by simp
          then show ?thesis by (rule exI)
        qed
      next
        case True
        with st obtain eis where rd: "file_Readdirnames w1 f = Inr eis"
          using file_Readdirnames_of_directory [of w1 f] by auto
        let ?names = "sort (map (\<lambda>ei. filepath_Join [fn, ei]) eis)"
        let ?outpath = "if HasSuffix out ''/'' then out @ Base fn @ ''/'' else out"
        have eq: "sort_names (map (\<lambda>ei. filepath_Join [Name f, ei]) eis) = ?names"
          "child_outpath out (Name f) = ?outpath"
          by (simp_all add: sort_names_def child_outpath_def nm)
        show ?thesis
        proof (cases depth)
          case 0
          with "2.prems" o f st True rd show ?thesis by simp
        next
          case (Suc d')
          let ?sub = "execute d' eng r (sort_names (map (\<lambda>ei. filepath_Join [Name f, ei]) eis))
                        (child_outpath out (Name f)) values w1"
          from "2.prems" o f st True rd Suc obtain p where sub: "?sub = Some p"
            by (cases ?sub) auto
          from "2.IH"(2) [OF o [symmetric] f st _ rd Suc sub] True
          obtain cs where cs: "map plan_name cs = ?names" "plans_depth cs \<le> d'"
            "spec_traverse eng r cs ?outpath values w1 = Some p"
            unfolding eq by auto
          obtain e2 w2 where p: "p = (e2, w2)" by (cases p)
          show ?thesis
          proof (cases e2)
            case None
            with "2.prems" o f st True rd Suc sub p
            have "execute depth eng r inputs out values w2 = Some res" by simp
            from "2.IH"(3) [OF o [symmetric] f st _ rd Suc sub p [symmetric] None this] True
            obtain ps where ps: "map plan_name ps = inputs" "plans_depth ps \<le> depth"
              "spec_traverse eng r ps out values w2 = Some res" by auto
            with o f st True rd cs p None Suc
            have "map plan_name (PDir fn cs # ps) = fn # inputs
              \<and> plans_depth (PDir fn cs # ps) \<le> depth
              \<and> spec_traverse eng r (PDir fn cs # ps) out values w = Some res" by simp
            then show ?thesis by (rule exI)
          next
            case (Some e)
            with "2.prems" o f st True rd Suc sub p have "res = (Some e, w2)" by simp
            with o f st True rd cs p Some Suc
            have "map plan_name (PDir fn cs # ?rest) = fn # inputs
              \<and> plans_depth (PDir fn cs # ?rest) \<le> depth
              \<and> spec_traverse eng r (PDir fn cs # ?rest) out values w = Some res" by simp
            then show ?thesis by (rule exI)
          qed
        qed
      qed
    qed
  qed
qed

text \<open>
  C1. \<open>Execute\<close> does what the spec's traversal does. Whenever the inputs and what lies
  below them are described by a finite tree, \<open>Execute\<close> with a depth bound not below
  the tree's depth returns the result of the traversal: every directory met is listed, its
  entries are joined to its path and sorted, and the children are processed in that order
  under the target extended by the directory's base name and a slash when the target ends
  with a slash, and under the unchanged target otherwise; the inputs themselves are
  processed in the order given. Conversely every result of \<open>Execute\<close> is the result of
  the traversal over such a tree.
\<close>

theorem Execute_is_spec_traverse:
  "(map plan_name ps = Inputs r \<and> plans_depth ps \<le> d
      \<and> spec_traverse eng r ps out v w = Some res
    \<longrightarrow> Execute d eng r out v w = Some res)
   \<and> (Execute d eng r out v w = Some res
    \<longrightarrow> (\<exists>ps. map plan_name ps = Inputs r \<and> plans_depth ps \<le> d
              \<and> spec_traverse eng r ps out v w = Some res))"
proof (intro conjI impI)
  assume a: "map plan_name ps = Inputs r \<and> plans_depth ps \<le> d
      \<and> spec_traverse eng r ps out v w = Some res"
  then have "execute d eng r (map plan_name ps) out v w = Some res"
    using execute_refines_spec_traverse [of eng r ps out v w res d] by blast
  with a show "Execute d eng r out v w = Some res"
    by (simp add: Execute_def)
next
  assume "Execute d eng r out v w = Some res"
  then have "execute d eng r (Inputs r) out v w = Some res"
    by (simp add: Execute_def)
  then show "\<exists>ps. map plan_name ps = Inputs r \<and> plans_depth ps \<le> d
              \<and> spec_traverse eng r ps out v w = Some res"
    by (rule spec_traverse_of_execute)
qed

theorem Execute_is_spec_traverse_witness:
  "map plan_name templates_plan = Inputs sample_renderer
   \<and> plans_depth templates_plan \<le> 2
   \<and> spec_traverse text_engine sample_renderer templates_plan ''out/'' () sample_world
       = Some (None, mirrored_world)
   \<and> Execute 2 text_engine sample_renderer ''out/'' () sample_world = Some (None, mirrored_world)
   \<and> file_Readdirnames opened_templates
        \<lparr>Name = ''templates'', fkey = [''templates''], fappend = False\<rparr>
       = Inr [''ok.txt.tpl'', ''deep'']
   \<and> opened mirrored_world
       = [''templates'', ''templates/deep'', ''templates/deep/ok2.txt.tpl'',
          ''out/templates/deep/ok2.txt'', ''templates/ok.txt.tpl'', ''out/templates/ok.txt'']
   \<and> map plan_name given_order_plan = Inputs given_order
   \<and> plans_depth given_order_plan \<le> 1
   \<and> spec_traverse text_engine given_order given_order_plan ''out/'' () sample_world
       = Some (None, given_order_world)
   \<and> Execute 1 text_engine given_order ''out/'' () sample_world = Some (None, given_order_world)
   \<and> opened given_order_world
       = [''templates/ok.txt.tpl'', ''out/ok.txt'', ''templates/deep'',
          ''templates/deep/ok2.txt.tpl'', ''out/deep/ok2.txt'']"
proof -
  have n1: "map plan_name templates_plan = Inputs sample_renderer"
    by (simp add: templates_plan_def sample_renderer_def)
  have d1: "plans_depth templates_plan \<le> 2"
    by code_simp
  have s1: "spec_traverse text_engine sample_renderer templates_plan ''out/'' () sample_world
            = Some (None, mirrored_world)"
    by code_simp
  have e1: "Execute 2 text_engine sample_renderer ''out/'' () sample_world
            = Some (None, mirrored_world)"
    using Execute_is_spec_traverse
      [where ps = templates_plan and r = sample_renderer and d = 2 and eng = text_engine
         and out = "''out/''" and v = "()" and w = sample_world
         and res = "(None, mirrored_world)", THEN conjunct1] n1 d1 s1
    by simp
  have l1: "file_Readdirnames opened_templates
        \<lparr>Name = ''templates'', fkey = [''templates''], fappend = False\<rparr>
       = Inr [''ok.txt.tpl'', ''deep'']"
    by code_simp
  have o1: "opened mirrored_world
       = [''templates'', ''templates/deep'', ''templates/deep/ok2.txt.tpl'',
          ''out/templates/deep/ok2.txt'', ''templates/ok.txt.tpl'', ''out/templates/ok.txt'']"
    by (simp add: mirrored_world_def)
  have n2: "map plan_name given_order_plan = Inputs given_order"
    by (simp add: given_order_plan_def given_order_def)
  have d2: "plans_depth given_order_plan \<le> 1"
    by code_simp
  have s2: "spec_traverse text_engine given_order given_order_plan ''out/'' () sample_world
            = Some (None, given_order_world)"
    by code_simp
  have e2: "Execute 1 text_engine given_order ''out/'' () sample_world
            = Some (None, given_order_world)"
    using Execute_is_spec_traverse
      [where ps = given_order_plan and r = given_order and d = 1 and eng = text_engine
         and out = "''out/''" and v = "()" and w = sample_world
         and res = "(None, given_order_world)", THEN conjunct1] n2 d2 s2
    by simp
  have o2: "opened given_order_world
       = [''templates/ok.txt.tpl'', ''out/ok.txt'', ''templates/deep'',
          ''templates/deep/ok2.txt.tpl'', ''out/deep/ok2.txt'']"
    by (simp add: given_order_world_def)
  from n1 d1 s1 e1 l1 o1 n2 d2 s2 e2 o2 show ?thesis
    by blast
qed



section \<open>Writing the output\<close>
























section \<open>Template errors\<close>

lemma prefix_Contains: "prefix sub s \<Longrightarrow> Contains s sub"
  by (cases s) auto

lemma Contains_middle: "Contains (a @ s @ b) s"
proof (induction a)
  case Nil
  show ?case by (simp add: prefix_Contains)
next
  case (Cons c a)
  then show ?case by simp
qed

lemma render_error_cases:
  assumes "render eng r v inames oname w = (Some e, w')"
  shows "(\<forall>j m. e = ParseFailed j m \<longrightarrow> j = strings_Join inames '', '')"
    and "\<forall>m. e = ExecFailed m \<longrightarrow>
           (\<exists>out w1 tpl bs. open_output w inames oname = (Inr out, w1)
              \<and> ParseFiles eng (Base (last inames)) (FuncMap r) inames (os_ReadFile w1) = Inr tpl
              \<and> Execute_tpl eng (if StopOnError r then MissingKeyError else MissingKeyZero) tpl v
                  = (bs, Some m))"
  using assms
  by (auto simp: render_def open_output_def
      split: if_splits sum.splits prod.splits option.splits)

text \<open>
  C8, as amended. A parse error returned by \<open>render\<close> carries the message
  \<open>Cannot parse templates [...]\<close> with the joined list of the source paths in it. An
  execution error returned by \<open>render\<close> is the error of the engine's \<open>Execute\<close> with
  its message as the engine made it: \<open>render\<close> adds nothing to it.
\<close>

theorem render_template_errors:
  "(render eng r v inames oname w = (Some (ParseFailed j m), w')
      \<longrightarrow> Error (ParseFailed j m)
            = Some (''Cannot parse templates ['' @ strings_Join inames '', '' @ '']: '' @ m)
        \<and> Contains (''Cannot parse templates ['' @ strings_Join inames '', '' @ '']: '' @ m)
             (strings_Join inames '', ''))
   \<and> (render eng r v inames oname w = (Some (ExecFailed m), w')
      \<longrightarrow> Error (ExecFailed m) = Some m
        \<and> (\<exists>out w1 tpl bs. open_output w inames oname = (Inr out, w1)
              \<and> ParseFiles eng (Base (last inames)) (FuncMap r) inames (os_ReadFile w1) = Inr tpl
              \<and> Execute_tpl eng (if StopOnError r then MissingKeyError else MissingKeyZero) tpl v
                  = (bs, Some m)))"
proof (intro conjI impI)
  assume a: "render eng r v inames oname w = (Some (ParseFailed j m), w')"
  from render_error_cases(1) [OF a] have j: "j = strings_Join inames '', ''" by simp
  then show "Error (ParseFailed j m)
            = Some (''Cannot parse templates ['' @ strings_Join inames '', '' @ '']: '' @ m)"
    by simp
  show "Contains (''Cannot parse templates ['' @ strings_Join inames '', '' @ '']: '' @ m)
             (strings_Join inames '', '')"
    by (rule Contains_middle)
next
  assume a: "render eng r v inames oname w = (Some (ExecFailed m), w')"
  show "Error (ExecFailed m) = Some m" by simp
  from render_error_cases(2) [OF a]
  show "\<exists>out w1 tpl bs. open_output w inames oname = (Inr out, w1)
              \<and> ParseFiles eng (Base (last inames)) (FuncMap r) inames (os_ReadFile w1) = Inr tpl
              \<and> Execute_tpl eng (if StopOnError r then MissingKeyError else MissingKeyZero) tpl v
                  = (bs, Some m)"
    by simp
qed

text \<open>
  C8 as stated fails: with the preload \<open>lib.tpl\<close>, the target \<open>hello.tpl\<close>
  holding \<open>Hello {{.Name}}\<close>, no values and the strict policy, the execution fails on
  the missing key and \<open>render\<close> returns the engine's error as it is. Its message does
  not contain the joined path list \<open>lib.tpl, hello.tpl\<close>, neither as the engine of this
  theory gives it nor with the prefix by which Go locates the error in the template
  \<open>hello.tpl\<close>.
\<close>

theorem execution_error_lacks_paths:
  \<open>os_ReadFile go_world ''hello.tpl'' = Inr ''Hello {{.Name}}''
   \<and> fst (render (go_engine sample_parse 8) with_lib [] [''lib.tpl'', ''hello.tpl''] ''-''
          go_world)
       = Some (ExecFailed ''map has no entry for key "Name"'')
   \<and> Error (ExecFailed ''map has no entry for key "Name"'')
       = Some ''map has no entry for key "Name"''
   \<and> strings_Join [''lib.tpl'', ''hello.tpl''] '', '' = ''lib.tpl, hello.tpl''
   \<and> \<not> Contains ''map has no entry for key "Name"'' ''lib.tpl, hello.tpl''
   \<and> \<not> Contains
         ''template: hello.tpl:1:8: executing "hello.tpl" at <.Name>: map has no entry for key "Name"''
         ''lib.tpl, hello.tpl''\<close>
  by code_simp

theorem render_template_errors_witness:
  \<open>fst (render (go_engine sample_parse 8) missing_preload [] [''nolib.tpl'', ''hello.tpl''] ''-''
          go_world)
     = Some (ParseFailed ''nolib.tpl, hello.tpl'' ''open nolib.tpl: no such file or directory'')
   \<and> Error (ParseFailed ''nolib.tpl, hello.tpl'' ''open nolib.tpl: no such file or directory'')
     = Some ''Cannot parse templates [nolib.tpl, hello.tpl]: open nolib.tpl: no such file or directory''
   \<and> Contains ''Cannot parse templates [nolib.tpl, hello.tpl]: open nolib.tpl: no such file or directory''
         ''nolib.tpl, hello.tpl''
   \<and> fst (render (go_engine sample_parse 8) with_lib [] [''lib.tpl'', ''hello.tpl''] ''-''
          go_world)
     = Some (ExecFailed ''map has no entry for key "Name"'')
   \<and> Error (ExecFailed ''map has no entry for key "Name"'')
     = Some ''map has no entry for key "Name"''\<close>
proof -
  let ?E = "go_engine sample_parse 8 :: (unit, template, (string \<times> gvalue) list) engine"
  let ?in1 = "[''nolib.tpl'', ''hello.tpl'']"
  let ?in2 = "[''lib.tpl'', ''hello.tpl'']"
  let ?r1 = "render ?E missing_preload [] ?in1 ''-'' go_world"
  let ?r2 = "render ?E with_lib [] ?in2 ''-'' go_world"
  let ?m = "''open nolib.tpl: no such file or directory''"
  let ?k = \<open>''map has no entry for key "Name"''\<close>
  have f1: "fst ?r1 = Some (ParseFailed ''nolib.tpl, hello.tpl'' ?m)"
    by code_simp
  then have p1: "?r1 = (Some (ParseFailed ''nolib.tpl, hello.tpl'' ?m), snd ?r1)"
    by (simp add: prod_eq_iff)
  have j: "strings_Join ?in1 '', '' = ''nolib.tpl, hello.tpl''"
    by simp
  have f2: "fst ?r2 = Some (ExecFailed ?k)"
    by code_simp
  then have p2: "?r2 = (Some (ExecFailed ?k), snd ?r2)"
    by (simp add: prod_eq_iff)
  from render_template_errors
    [where eng = ?E and r = missing_preload and v = "[]" and inames = ?in1 and oname = "''-''"
       and w = go_world and j = "''nolib.tpl, hello.tpl''" and m = ?m and w' = "snd ?r1",
     THEN conjunct1] p1
  have a: "Error (ParseFailed ''nolib.tpl, hello.tpl'' ?m)
     = Some (''Cannot parse templates ['' @ strings_Join ?in1 '', '' @ '']: '' @ ?m)
   \<and> Contains (''Cannot parse templates ['' @ strings_Join ?in1 '', '' @ '']: '' @ ?m)
         (strings_Join ?in1 '', '')"
    by blast
  from render_template_errors
    [where eng = ?E and r = with_lib and v = "[]" and inames = ?in2 and oname = "''-''"
       and w = go_world and m = ?k and w' = "snd ?r2", THEN conjunct2] p2
  have b: "Error (ExecFailed ?k) = Some ?k"
    by blast
  from a have a': "Error (ParseFailed ''nolib.tpl, hello.tpl'' ?m)
     = Some ''Cannot parse templates [nolib.tpl, hello.tpl]: open nolib.tpl: no such file or directory''
     \<and> Contains ''Cannot parse templates [nolib.tpl, hello.tpl]: open nolib.tpl: no such file or directory''
         ''nolib.tpl, hello.tpl''"
    unfolding j by simp
  from f1 a' f2 b show ?thesis
    by blast
qed

section \<open>The render unit and the template set\<close>



lemma AddParseTree_tname [simp]: "tname (AddParseTree b t nt) = tname t"
  by (simp add: AddParseTree_def Let_def)

lemma foldl_AddParseTree_tname [simp]: "tname (foldl (AddParseTree b) t trees) = tname t"
  by (induction trees arbitrary: t) simp_all










section \<open>The missing-key policy\<close>

lemma walk_texts:
  "walk d mk ts dot (map Text txts @ ns) =
     (case walk d mk ts dot ns of (out, err) \<Rightarrow> (concat txts @ out, err))"
  by (induction txts) (auto split: prod.splits)

lemma evalFieldChain_absent_strict:
  "map_of data k = None \<Longrightarrow>
   evalFieldChain MissingKeyError (Map data) (k # ks)
     = Inl (''map has no entry for key '' @ quoted k)"
  by simp

lemma evalFieldChain_absent_zero:
  "map_of data k = None \<Longrightarrow> evalFieldChain MissingKeyZero (Map data) [k] = Inr Nil"
  by simp

lemma evalFieldChain_absent_zero_nested:
  "map_of data k = None \<Longrightarrow>
   evalFieldChain MissingKeyZero (Map data) (k # k2 # ks)
     = Inl (''nil pointer evaluating interface {}.'' @ k2)"
  by simp

lemma go_Execute_absent:
  assumes "ttree t = Some (map Text txts @ Field (k # ks) # rest)" and "map_of data k = None"
  shows "go_Execute n MissingKeyError t data
           = (concat txts, Some (''map has no entry for key '' @ quoted k))"
    and "ks = [] \<Longrightarrow> go_Execute n MissingKeyZero t data
           = (case walk n MissingKeyZero (tcommon t) (Map data) rest of
                (bs, err) \<Rightarrow> (concat txts @ ''<no value>'' @ bs, err))"
    and "ks \<noteq> [] \<Longrightarrow> go_Execute n MissingKeyZero t data
           = (concat txts, Some (''nil pointer evaluating interface {}.'' @ hd ks))"
proof -
  show "go_Execute n MissingKeyError t data
           = (concat txts, Some (''map has no entry for key '' @ quoted k))"
    using assms by (simp add: go_Execute_def walk_texts)
  show "go_Execute n MissingKeyZero t data
           = (case walk n MissingKeyZero (tcommon t) (Map data) rest of
                (bs, err) \<Rightarrow> (concat txts @ ''<no value>'' @ bs, err))" if "ks = []"
    using assms that
    by (simp add: go_Execute_def walk_texts printValue_def split: prod.splits)
  show "go_Execute n MissingKeyZero t data
           = (concat txts, Some (''nil pointer evaluating interface {}.'' @ hd ks))" if "ks \<noteq> []"
  proof -
    from that obtain k2 ks' where "ks = k2 # ks'" by (cases ks) auto
    with assms show ?thesis
      by (simp add: go_Execute_def walk_texts)
  qed
qed

lemma render_opened:
  assumes "oname \<noteq> []" and "open_output w inames oname = (Inr out, w1)" and "inames \<noteq> []"
    and "ParseFiles eng (Base (last inames)) (FuncMap r) inames (os_ReadFile w1) = Inr t"
  shows "render eng r v inames oname w =
     (case Execute_tpl eng (if StopOnError r then MissingKeyError else MissingKeyZero) t v of
        (bs, err) \<Rightarrow> (map_option ExecFailed err, write_output w1 out bs))"
  using assms by (simp add: render_def)

text \<open>
  C5, as amended. Let the template that is executed reach, after text only, a field action
  whose first key is absent from the values. With \<open>StopOnError\<close> the render fails with
  the engine's missing-key error. Without it, an action that is the key alone puts
  \<open><no value>\<close> in the output and the execution goes on with the rest of the template;
  an action that reads a further field through the absent key fails the render.
\<close>

theorem missing_key_policy:
  "oname \<noteq> [] \<and> open_output w inames oname = (Inr out, w1) \<and> inames \<noteq> []
     \<and> go_ParseFiles ps (Base (last inames)) (FuncMap r) inames (os_ReadFile w1) = Inr t
     \<and> ttree t = Some (map Text txts @ Field (k # ks) # rest) \<and> map_of data k = None
   \<longrightarrow>
     (StopOnError r \<longrightarrow>
        render (go_engine ps n) r data inames oname w
          = (Some (ExecFailed (''map has no entry for key '' @ quoted k)),
             write_output w1 out (concat txts)))
     \<and> (\<not> StopOnError r \<and> ks = [] \<longrightarrow>
        render (go_engine ps n) r data inames oname w
          = (case walk n MissingKeyZero (tcommon t) (Map data) rest of
               (bs, err) \<Rightarrow>
                 (map_option ExecFailed err,
                  write_output w1 out (concat txts @ ''<no value>'' @ bs))))
     \<and> (\<not> StopOnError r \<and> ks \<noteq> [] \<longrightarrow>
        render (go_engine ps n) r data inames oname w
          = (Some (ExecFailed (''nil pointer evaluating interface {}.'' @ hd ks)),
             write_output w1 out (concat txts)))"
proof (intro impI)
  assume a: "oname \<noteq> [] \<and> open_output w inames oname = (Inr out, w1) \<and> inames \<noteq> []
     \<and> go_ParseFiles ps (Base (last inames)) (FuncMap r) inames (os_ReadFile w1) = Inr t
     \<and> ttree t = Some (map Text txts @ Field (k # ks) # rest) \<and> map_of data k = None"
  then have p: "ParseFiles (go_engine ps n) (Base (last inames)) (FuncMap r) inames
                  (os_ReadFile w1) = Inr t"
    by (simp add: go_engine_def)
  from a have tt: "ttree t = Some (map Text txts @ Field (k # ks) # rest)"
    and ab: "map_of data k = None" by simp_all
  from a p have rn: "render (go_engine ps n) r data inames oname w =
     (case go_Execute n (if StopOnError r then MissingKeyError else MissingKeyZero) t data of
        (bs, err) \<Rightarrow> (map_option ExecFailed err, write_output w1 out bs))"
    using render_opened [of oname w inames out w1 "go_engine ps n" r t data]
    by (simp add: go_engine_def)
  show "(StopOnError r \<longrightarrow>
        render (go_engine ps n) r data inames oname w
          = (Some (ExecFailed (''map has no entry for key '' @ quoted k)),
             write_output w1 out (concat txts)))
     \<and> (\<not> StopOnError r \<and> ks = [] \<longrightarrow>
        render (go_engine ps n) r data inames oname w
          = (case walk n MissingKeyZero (tcommon t) (Map data) rest of
               (bs, err) \<Rightarrow>
                 (map_option ExecFailed err,
                  write_output w1 out (concat txts @ ''<no value>'' @ bs))))
     \<and> (\<not> StopOnError r \<and> ks \<noteq> [] \<longrightarrow>
        render (go_engine ps n) r data inames oname w
          = (Some (ExecFailed (''nil pointer evaluating interface {}.'' @ hd ks)),
             write_output w1 out (concat txts)))"
  proof (intro conjI impI)
    assume "StopOnError r"
    then show "render (go_engine ps n) r data inames oname w
          = (Some (ExecFailed (''map has no entry for key '' @ quoted k)),
             write_output w1 out (concat txts))"
      by (simp add: rn go_Execute_absent(1) [OF tt ab])
  next
    assume "\<not> StopOnError r \<and> ks = []"
    then show "render (go_engine ps n) r data inames oname w
          = (case walk n MissingKeyZero (tcommon t) (Map data) rest of
               (bs, err) \<Rightarrow>
                 (map_option ExecFailed err,
                  write_output w1 out (concat txts @ ''<no value>'' @ bs)))"
      by (simp add: rn go_Execute_absent(2) [OF tt ab] split: prod.splits)
  next
    assume "\<not> StopOnError r \<and> ks \<noteq> []"
    then show "render (go_engine ps n) r data inames oname w
          = (Some (ExecFailed (''nil pointer evaluating interface {}.'' @ hd ks)),
             write_output w1 out (concat txts))"
      by (simp add: rn go_Execute_absent(3) [OF tt ab])
  qed
qed

text \<open>
  C5 as stated fails: the template \<open>{{.a.b}}\<close> refers to the key \<open>a\<close>, absent from
  the empty values; it fails under the strict policy and under the lenient one as well.
\<close>

theorem lenient_execution_fails:
  \<open>os_ReadFile go_world ''nested.tpl'' = Inr ''{{.a.b}}''
   \<and> sample_parse ''nested.tpl'' ''{{.a.b}}'' = Inr [(''nested.tpl'', [Field [''a'', ''b'']])]
   \<and> fst (render (go_engine sample_parse 8) strict [] [''nested.tpl''] ''-'' go_world)
       = Some (ExecFailed ''map has no entry for key "a"'')
   \<and> fst (render (go_engine sample_parse 8) lenient [] [''nested.tpl''] ''-'' go_world)
       = Some (ExecFailed ''nil pointer evaluating interface {}.b'')\<close>
  by code_simp

theorem missing_key_policy_witness:
  \<open>open_output go_world [''hello.tpl''] ''-'' = (Inr None, hello_opened)
   \<and> go_ParseFiles sample_parse ''hello.tpl'' (FuncMap strict) [''hello.tpl'']
        (os_ReadFile hello_opened) = Inr hello_template
   \<and> render (go_engine sample_parse 8) strict [] [''hello.tpl''] ''-'' go_world
       = (Some (ExecFailed ''map has no entry for key "Name"''),
          hello_opened\<lparr>stdout := ''Hello ''\<rparr>)
   \<and> render (go_engine sample_parse 8) lenient [] [''hello.tpl''] ''-'' go_world
       = (None, hello_opened\<lparr>stdout := ''Hello <no value>''\<rparr>)
   \<and> render (go_engine sample_parse 8) lenient [] [''nested.tpl''] ''-'' go_world
       = (Some (ExecFailed ''nil pointer evaluating interface {}.b''), nested_opened)\<close>
proof -
  have o: "open_output go_world [''hello.tpl''] ''-'' = (Inr None, hello_opened)"
    by code_simp
  have p: "go_ParseFiles sample_parse (Base (last [''hello.tpl''])) (FuncMap strict)
             [''hello.tpl''] (os_ReadFile hello_opened) = Inr hello_template"
    "go_ParseFiles sample_parse (Base (last [''hello.tpl''])) (FuncMap lenient)
             [''hello.tpl''] (os_ReadFile hello_opened) = Inr hello_template"
    by code_simp+
  have t: "ttree hello_template = Some (map Text [''Hello ''] @ Field (''Name'' # []) # [])"
    by (simp add: hello_template_def)
  have m: "map_of ([] :: (string \<times> gvalue) list) ''Name'' = None"
    by simp
  have s: "StopOnError strict" "\<not> StopOnError lenient"
    by (simp_all add: strict_def lenient_def)
  have o2: "open_output go_world [''nested.tpl''] ''-'' = (Inr None, nested_opened)"
    by code_simp
  have p2: "go_ParseFiles sample_parse (Base (last [''nested.tpl''])) (FuncMap lenient)
             [''nested.tpl''] (os_ReadFile nested_opened) = Inr nested_template"
    by code_simp
  have t2: "ttree nested_template = Some (map Text [] @ Field (''a'' # [''b'']) # [])"
    by (simp add: nested_template_def)
  have m2: "map_of ([] :: (string \<times> gvalue) list) ''a'' = None"
    by simp
  have a: "render (go_engine sample_parse 8) strict [] [''hello.tpl''] ''-'' go_world
       = (Some (ExecFailed (''map has no entry for key '' @ quoted ''Name'')),
          write_output hello_opened None (concat [''Hello '']))"
    using missing_key_policy [where oname = "''-''" and w = go_world and inames = "[''hello.tpl'']"
        and out = None and ?w1.0 = hello_opened and ps = sample_parse and r = strict
        and t = hello_template and txts = "[''Hello '']" and k = "''Name''" and ks = "[]"
        and rest = "[]" and data = "[]" and n = 8]
      o p(1) t m s(1)
    by simp
  have b: "render (go_engine sample_parse 8) lenient [] [''hello.tpl''] ''-'' go_world
       = (case walk 8 MissingKeyZero (tcommon hello_template) (Map []) [] of
               (bs, err) \<Rightarrow>
                 (map_option ExecFailed err,
                  write_output hello_opened None (concat [''Hello ''] @ ''<no value>'' @ bs)))"
    using missing_key_policy [where oname = "''-''" and w = go_world and inames = "[''hello.tpl'']"
        and out = None and ?w1.0 = hello_opened and ps = sample_parse and r = lenient
        and t = hello_template and txts = "[''Hello '']" and k = "''Name''" and ks = "[]"
        and rest = "[]" and data = "[]" and n = 8]
      o p(2) t m s(2)
    by simp
  have c: "render (go_engine sample_parse 8) lenient [] [''nested.tpl''] ''-'' go_world
       = (Some (ExecFailed (''nil pointer evaluating interface {}.'' @ hd [''b''])),
          write_output nested_opened None (concat []))"
    using missing_key_policy [where oname = "''-''" and w = go_world and inames = "[''nested.tpl'']"
        and out = None and ?w1.0 = nested_opened and ps = sample_parse and r = lenient
        and t = nested_template and txts = "[]" and k = "''a''" and ks = "[''b'']"
        and rest = "[]" and data = "[]" and n = 8]
      o2 p2 t2 m2 s(2)
    by simp
  have p': "go_ParseFiles sample_parse ''hello.tpl'' (FuncMap strict) [''hello.tpl'']
        (os_ReadFile hello_opened) = Inr hello_template"
    by code_simp
  have a': \<open>render (go_engine sample_parse 8) strict [] [''hello.tpl''] ''-'' go_world
       = (Some (ExecFailed ''map has no entry for key "Name"''),
          hello_opened\<lparr>stdout := ''Hello ''\<rparr>)\<close>
    unfolding a by (simp add: write_output_def hello_opened_def go_world_def quoted_def)
  have b': "render (go_engine sample_parse 8) lenient [] [''hello.tpl''] ''-'' go_world
       = (None, hello_opened\<lparr>stdout := ''Hello <no value>''\<rparr>)"
    unfolding b by (simp add: write_output_def hello_opened_def go_world_def)
  have c': "render (go_engine sample_parse 8) lenient [] [''nested.tpl''] ''-'' go_world
       = (Some (ExecFailed ''nil pointer evaluating interface {}.b''), nested_opened)"
    unfolding c by (simp add: write_output_def nested_opened_def go_world_def)
  from o p' a' b' c' show ?thesis
    by blast
qed

end
